theory Spec2Isabelle
  imports Main "HOL-Library.Word"
begin

section \<open>The shared types of go-fuzz-build and go-fuzz\<close>

text \<open>
  The package \<^verbatim>\<open>internal/go-fuzz-types\<close> declares three plain structs and nothing
  else: no function, no method, no package-level variable.

  \<^verbatim>\<open>
  type CoverBlock struct {
          ID        int
          File      string
          StartLine int
          StartCol  int
          EndLine   int
          EndCol    int
          NumStmt   int
  }
  type Literal struct {
          Val   string
          IsStr bool
  }
  type MetaData struct {
          Literals []Literal
          Blocks   []CoverBlock
          Sonar    []CoverBlock
  }
  \<close>

  Go's \<^verbatim>\<open>int\<close> is a signed machine integer, 32 or 64 bits wide by target; it is a
  64-bit word here, read as two's complement by \<open>sint\<close>, and nothing below depends on
  the width. A Go \<^verbatim>\<open>string\<close> is a sequence of bytes; a HOL \<open>char\<close> is one byte, so
  \<open>string\<close> is that sequence. A slice is the list of its elements, in order.
\<close>

type_synonym go_int = "64 word"

record CoverBlock =
  ID :: go_int
  File :: string
  StartLine :: go_int
  StartCol :: go_int
  EndLine :: go_int
  EndCol :: go_int
  NumStmt :: go_int

record Literal =
  Val :: string
  IsStr :: bool

record MetaData =
  Literals :: "Literal list"
  Blocks :: "CoverBlock list"
  Sonar :: "CoverBlock list"

section \<open>Properties\<close>

subsection \<open>The shape of the two element structs\<close>

text \<open>
  A coverage block is rebuilt from its seven fields, and two blocks are equal exactly
  when the seven fields are: the struct holds nothing else.
\<close>

lemma CoverBlock_seven_fields:
  "(b :: CoverBlock) =
     \<lparr>ID = ID b, File = File b, StartLine = StartLine b, StartCol = StartCol b,
      EndLine = EndLine b, EndCol = EndCol b, NumStmt = NumStmt b\<rparr>
   \<and> ((b = b') =
        (ID b = ID b' \<and> File b = File b' \<and> StartLine b = StartLine b'
         \<and> StartCol b = StartCol b' \<and> EndLine b = EndLine b' \<and> EndCol b = EndCol b'
         \<and> NumStmt b = NumStmt b'))"
proof -
  have eq: "(b = b') =
        (ID b = ID b' \<and> File b = File b' \<and> StartLine b = StartLine b'
         \<and> StartCol b = StartCol b' \<and> EndLine b = EndLine b' \<and> EndCol b = EndCol b'
         \<and> NumStmt b = NumStmt b')"
    by (cases b, cases b') simp
  then show ?thesis
    by simp
qed

text \<open>
  A literal is rebuilt from its two fields, and two literals are equal exactly when
  both fields are.
\<close>

lemma Literal_two_fields:
  "(l :: Literal) = \<lparr>Val = Val l, IsStr = IsStr l\<rparr>
   \<and> ((l = l') = (Val l = Val l' \<and> IsStr l = IsStr l'))"
proof -
  have eq: "(l = l') = (Val l = Val l' \<and> IsStr l = IsStr l')"
    by (cases l, cases l') simp
  then show ?thesis
    by simp
qed

text \<open>
  The struct puts no condition on a block's id: a bundle of one block whose id is 7 is
  a value of the type, and 7 is no index into a sequence of length one.
\<close>

lemma MetaData_ids_unconstrained:
  "length (Blocks \<lparr>Literals = [], Blocks = [\<lparr>ID = 7, File = ''a.go'', StartLine = 1,
       StartCol = 1, EndLine = 2, EndCol = 3, NumStmt = 1\<rparr>], Sonar = []\<rparr>) = 1
   \<and> map (\<lambda>b. sint (ID b)) (Blocks \<lparr>Literals = [], Blocks = [\<lparr>ID = 7, File = ''a.go'',
       StartLine = 1, StartCol = 1, EndLine = 2, EndCol = 3, NumStmt = 1\<rparr>], Sonar = []\<rparr>)
     = [7]"
  by simp

subsection \<open>The claims\<close>

text \<open>
  C1. A metadata bundle is exactly three sequences: the literals, the ordinary coverage
  blocks and the sonar blocks. It is rebuilt from its three fields and two bundles are
  equal exactly when the three fields are; the two block pools are separate fields, so
  each can be set without touching the other and any pair of pools can occur together.
\<close>

theorem MetaData_three_sequences:
  "(m :: MetaData) = \<lparr>Literals = Literals m, Blocks = Blocks m, Sonar = Sonar m\<rparr>
   \<and> ((m = m') = (Literals m = Literals m' \<and> Blocks m = Blocks m' \<and> Sonar m = Sonar m'))
   \<and> Blocks (m\<lparr>Sonar := s\<rparr>) = Blocks m
   \<and> Sonar (m\<lparr>Blocks := b\<rparr>) = Sonar m
   \<and> Blocks \<lparr>Literals = l, Blocks = b, Sonar = s\<rparr> = b
   \<and> Sonar \<lparr>Literals = l, Blocks = b, Sonar = s\<rparr> = s"
proof -
  have eq: "(m = m') = (Literals m = Literals m' \<and> Blocks m = Blocks m' \<and> Sonar m = Sonar m')"
    by (cases m, cases m') simp
  show ?thesis
    using eq by simp
qed

text \<open>
  C10. String and non-string constants share one representation. Whatever the flag, the
  bytes of a literal are its field \<open>Val\<close>; setting the flag leaves the bytes alone; and
  the byte sequences of a dictionary are the same however its flags are set, so a
  consumer that reads \<open>Val\<close> of every entry never needs the flag.
\<close>

theorem Literal_bytes_regardless_of_IsStr:
  "Val \<lparr>Val = v, IsStr = s\<rparr> = v
   \<and> Val (l\<lparr>IsStr := s\<rparr>) = Val l
   \<and> map Val (map (\<lambda>l. l\<lparr>IsStr := f l\<rparr>) ls) = map Val ls
   \<and> map Val (Literals (m\<lparr>Literals := map (\<lambda>l. l\<lparr>IsStr := f l\<rparr>) (Literals m)\<rparr>))
       = map Val (Literals m)"
  by simp

end
